theory Spec2Isabelle
  imports Main
begin

section \<open>JavaScript values\<close>

text \<open>
  A JavaScript value as far as the picker and the save handler meet one: the result of
  parsing a JSON body, plus \<open>undefined\<close> (what reading a missing property gives).
  A number keeps its lexeme; an object lists its own properties, each key once.
  Strings are sequences of code units, written as HOL strings.
\<close>

datatype jsval =
    JUndefined
  | JNull
  | JBool bool
  | JNum string
  | JStr string
  | JArr "jsval list"
  | JObj "(string \<times> jsval) list"

text \<open>
  Reading a property, \<open>v.k\<close>, for the names the code reads (\<open>id\<close>, \<open>title\<close>,
  \<open>display_name\<close>, \<open>error\<close>, \<open>messages\<close>, \<open>text\<close>), which no prototype defines: a
  TypeError (\<open>None\<close>) on \<open>null\<close> and \<open>undefined\<close>, the own property of an object,
  \<open>undefined\<close> otherwise.
\<close>

fun get_prop :: "jsval \<Rightarrow> string \<Rightarrow> jsval option" where
  "get_prop JUndefined k = None"
| "get_prop JNull k = None"
| "get_prop (JObj kvs) k = Some (case map_of kvs k of None \<Rightarrow> JUndefined | Some v \<Rightarrow> v)"
| "get_prop _ k = Some JUndefined"

section \<open>The JavaScript Set of selected block ids\<close>

text \<open>
  A JavaScript \<open>Set\<close> of strings iterates in insertion order and holds each value once.
  It is modelled by the list of its values in iteration order. \<open>set_add\<close> is
  \<open>Set.prototype.add\<close>, \<open>set_delete\<close> is \<open>Set.prototype.delete\<close>, \<open>new_Set\<close> is
  \<open>new Set(iterable)\<close> (which adds the values of the iterable one by one) and
  \<open>Array_from\<close> is \<open>Array.from(set)\<close>.
\<close>

definition set_add :: "string list \<Rightarrow> string \<Rightarrow> string list" where
  "set_add s x = (if x \<in> set s then s else s @ [x])"

definition set_delete :: "string list \<Rightarrow> string \<Rightarrow> string list" where
  "set_delete s x = filter (\<lambda>y. y \<noteq> x) s"

definition new_Set :: "string list \<Rightarrow> string list" where
  "new_Set xs = foldl set_add [] xs"

definition Array_from :: "string list \<Rightarrow> string list" where
  "Array_from s = s"

section \<open>The picker component and its surroundings\<close>

record picker_props =
  saveUrl :: string
  props_selectedXblocks :: "string list"

text \<open>\<open>LibrarySourcedBlockPicker.defaultProps\<close>.\<close>

definition defaultProps :: picker_props where
  "defaultProps = \<lparr>saveUrl = [], props_selectedXblocks = []\<rparr>"

text \<open>\<open>this.state\<close>. \<open>selectedLibrary = None\<close> is \<open>undefined\<close>.\<close>

record picker_state =
  libraries :: jsval
  xblocks :: jsval
  searchedLibrary :: string
  searchedXblock :: string
  selectedLibrary :: "string option"
  selectedXblocks :: "string list"

text \<open>
  The two search inputs of \<open>render\<close>. An input event's \<open>event.target\<close> is one of these
  DOM nodes, and \<open>event.target.value\<close> reads the node's value at the time of the read.
\<close>

datatype element = LibraryInput | XBlockInput

text \<open>
  What \<open>_.debounce(f, 300)\<close> returns: the closure \<open>f\<close>, which here has captured the
  \<open>event\<close> of the handler call that created it (represented by the event's target),
  and the pending timer, by the time at which it expires.
\<close>

record debounced =
  captured_target :: element
  timeout :: "nat option"

text \<open>
  A call of \<open>fetch\<close>: \<open>LibrariesReq text_search\<close> from \<open>fetchLibraries\<close>,
  \<open>XblocksReq library text_search\<close> from \<open>fetchXblocks\<close>.
\<close>

datatype request =
    LibrariesReq string
  | XblocksReq "string option" string

text \<open>The URL of the template literal; \<open>undefined\<close> is interpolated as its name.\<close>

definition request_url :: "request \<Rightarrow> string" where
  "request_url r = (case r of
       LibrariesReq text_search \<Rightarrow> ''/api/libraries/v2?text_search='' @ text_search
     | XblocksReq library text_search \<Rightarrow>
         ''/api/libraries/v2/'' @ (case library of None \<Rightarrow> ''undefined'' | Some l \<Rightarrow> l)
           @ ''/blocks?text_search='' @ text_search)"

text \<open>The parameters of the \<open>save\<close> event triggered on \<open>#library-sourced-block-picker\<close>.\<close>

record save_params =
  save_url :: string
  source_block_ids :: "string list"

text \<open>
  The component instance together with what it acts on: the values of the two DOM
  inputs, the clock (in milliseconds), whether the component is mounted, the requests
  in flight (issued, not yet settled), the log of every request issued, the console
  and the log of triggered \<open>save\<close> events.
\<close>

record world =
  props :: picker_props
  state :: picker_state
  debouncedFetchLibraries :: "debounced option"
  debouncedFetchXblocks :: "debounced option"
  libraryInput_value :: string
  xblockInput_value :: string
  now :: nat
  mounted :: bool
  inflight :: "request list"
  issued :: "request list"
  console :: "string list list"
  triggered :: "save_params list"

definition target_value :: "element \<Rightarrow> world \<Rightarrow> string" where
  "target_value e w = (case e of
       LibraryInput \<Rightarrow> libraryInput_value w
     | XBlockInput \<Rightarrow> xblockInput_value w)"

subsection \<open>The methods of the component\<close>

text \<open>
  \<open>fetchLibraries(text_search='')\<close> and \<open>fetchXblocks(library, text_search='')\<close>:
  the argument \<open>None\<close> is a missing argument, which takes the default. The call of
  \<open>fetch\<close> puts the request in flight; the \<open>then\<close> callbacks run when it settles
  (\<open>resolve\<close> and \<open>reject\<close> below).

  \<open>setState\<close> merges the given fields into the state. React applies it when the
  handler returns; no handler reads the state after its call of \<open>setState\<close>, so the
  methods below apply it at once.
\<close>

definition fetchLibraries :: "string option \<Rightarrow> world \<Rightarrow> world" where
  "fetchLibraries text_search w =
     (let r = LibrariesReq (case text_search of None \<Rightarrow> [] | Some t \<Rightarrow> t)
      in w\<lparr>inflight := inflight w @ [r], issued := issued w @ [r]\<rparr>)"

definition fetchXblocks :: "string option \<Rightarrow> string option \<Rightarrow> world \<Rightarrow> world" where
  "fetchXblocks library text_search w =
     (let r = XblocksReq library (case text_search of None \<Rightarrow> [] | Some t \<Rightarrow> t)
      in w\<lparr>inflight := inflight w @ [r], issued := issued w @ [r]\<rparr>)"

text \<open>
  The constructor, followed by the mount of the component: the initial state, no
  debounced function yet, and the call \<open>this.fetchLibraries()\<close>. The values of the DOM
  inputs are empty and the clock starts at \<open>t0\<close>.
\<close>

definition constructor :: "picker_props \<Rightarrow> nat \<Rightarrow> world" where
  "constructor p t0 =
     fetchLibraries None
       \<lparr>props = p,
        state = \<lparr>libraries = JArr [], xblocks = JArr [], searchedLibrary = [],
                 searchedXblock = [], selectedLibrary = None,
                 selectedXblocks = new_Set (props_selectedXblocks p)\<rparr>,
        debouncedFetchLibraries = None,
        debouncedFetchXblocks = None,
        libraryInput_value = [], xblockInput_value = [],
        now = t0, mounted = True, inflight = [], issued = [],
        console = [], triggered = []\<rparr>"

text \<open>
  Calling a debounced function (re)starts its timer: the closure runs 300 ms after the
  last call.
\<close>

definition call_debounced :: "nat \<Rightarrow> debounced \<Rightarrow> debounced" where
  "call_debounced t d = d\<lparr>timeout := Some (t + 300)\<rparr>"

text \<open>
  \<open>onLibraryInputChange(event)\<close> and \<open>onXBlockInputChange(event)\<close>, given the event's
  target. The debounced function is created at the first call only, around the event of
  that call, and reused afterwards.
\<close>

definition onLibraryInputChange :: "element \<Rightarrow> world \<Rightarrow> world" where
  "onLibraryInputChange event_target w =
     (let w1 = w\<lparr>state := (state w)\<lparr>searchedLibrary := target_value event_target w\<rparr>\<rparr>;
          d = (case debouncedFetchLibraries w1 of
                 None \<Rightarrow> \<lparr>captured_target = event_target, timeout = None\<rparr>
               | Some d \<Rightarrow> d)
      in w1\<lparr>debouncedFetchLibraries := Some (call_debounced (now w1) d)\<rparr>)"

definition onXBlockInputChange :: "element \<Rightarrow> world \<Rightarrow> world" where
  "onXBlockInputChange event_target w =
     (let w1 = w\<lparr>state := (state w)\<lparr>searchedXblock := target_value event_target w\<rparr>\<rparr>;
          d = (case debouncedFetchXblocks w1 of
                 None \<Rightarrow> \<lparr>captured_target = event_target, timeout = None\<rparr>
               | Some d \<Rightarrow> d)
      in w1\<lparr>debouncedFetchXblocks := Some (call_debounced (now w1) d)\<rparr>)"

text \<open>
  The bodies of the two debounced closures, run when the timer expires: they read the
  value of the captured event's target, and the second reads \<open>this.state.selectedLibrary\<close>,
  both at that time.
\<close>

definition debouncedFetchLibraries_body :: "element \<Rightarrow> world \<Rightarrow> world" where
  "debouncedFetchLibraries_body event_target w =
     fetchLibraries (Some (target_value event_target w)) w"

definition debouncedFetchXblocks_body :: "element \<Rightarrow> world \<Rightarrow> world" where
  "debouncedFetchXblocks_body event_target w =
     fetchXblocks (selectedLibrary (state w)) (Some (target_value event_target w)) w"

text \<open>\<open>onLibrarySelected(event)\<close>, given \<open>event.target.value\<close>.\<close>

definition onLibrarySelected :: "string \<Rightarrow> world \<Rightarrow> world" where
  "onLibrarySelected v w =
     fetchXblocks (Some v) None (w\<lparr>state := (state w)\<lparr>selectedLibrary := Some v\<rparr>\<rparr>)"

text \<open>\<open>onXblockSelected(event)\<close>, given \<open>event.target.checked\<close> and \<open>event.target.value\<close>.\<close>

definition onXblockSelected :: "bool \<Rightarrow> string \<Rightarrow> world \<Rightarrow> world" where
  "onXblockSelected checked v w =
     (let s = new_Set (selectedXblocks (state w));
          s' = (if checked then set_add s v else set_delete s v)
      in w\<lparr>state := (state w)\<lparr>selectedXblocks := s'\<rparr>\<rparr>)"

text \<open>\<open>onDeleteClick(event)\<close>, given \<open>event.target.dataset.value\<close>.\<close>

definition onDeleteClick :: "string \<Rightarrow> world \<Rightarrow> world" where
  "onDeleteClick v w =
     (let s = new_Set (selectedXblocks (state w));
          s' = set_delete s v
      in w\<lparr>state := (state w)\<lparr>selectedXblocks := s'\<rparr>\<rparr>)"

text \<open>\<open>onSaveClick()\<close>: the console line, then the \<open>save\<close> event.\<close>

definition onSaveClick :: "world \<Rightarrow> world" where
  "onSaveClick w =
     (let w1 = w\<lparr>console := console w @ [selectedXblocks (state w)]\<rparr>
      in w1\<lparr>triggered := triggered w1 @
               [\<lparr>save_url = saveUrl (props w1),
                 source_block_ids = Array_from (selectedXblocks (state w1))\<rparr>]\<rparr>)"

subsection \<open>Settling a request\<close>

text \<open>
  \<open>render\<close>, as far as it can throw. A value is a valid React child when it is not a
  plain object: a string or a number is text, a boolean, \<open>null\<close> and \<open>undefined\<close>
  are nothing, an array is its elements in turn.
\<close>

fun valid_child :: "jsval \<Rightarrow> bool" where
  "valid_child (JObj _) = False"
| "valid_child (JArr xs) = list_all valid_child xs"
| "valid_child _ = True"

text \<open>
  The callbacks of the two \<open>map\<close> calls of \<open>render\<close>: the first reads \<open>lib.id\<close> and
  \<open>lib.title\<close> and has \<open>lib.title\<close> as a child; the second reads \<open>block.id\<close> and
  \<open>block.display_name\<close> and has both as children. Reading a property of \<open>null\<close>
  throws, and so does React on a child that is not valid.
\<close>

definition library_item_renders :: "jsval \<Rightarrow> bool" where
  "library_item_renders lib =
     (case get_prop lib ''id'' of
        None \<Rightarrow> False
      | Some lib_id \<Rightarrow>
          (case get_prop lib ''title'' of
             None \<Rightarrow> False
           | Some title \<Rightarrow> valid_child title))"

definition block_item_renders :: "jsval \<Rightarrow> bool" where
  "block_item_renders block =
     (case get_prop block ''id'' of
        None \<Rightarrow> False
      | Some block_id \<Rightarrow>
          (case get_prop block ''display_name'' of
             None \<Rightarrow> False
           | Some display_name \<Rightarrow> valid_child display_name \<and> valid_child block_id))"

text \<open>
  \<open>this.state.libraries.map(...)\<close> and \<open>this.state.xblocks.map(...)\<close>: only an
  array has a \<open>map\<close> to call. The third list of \<open>render\<close> shows the selected ids,
  which are strings. \<open>renders s\<close>: \<open>render\<close> returns in state \<open>s\<close>; otherwise it throws.
\<close>

definition libraries_render :: "jsval \<Rightarrow> bool" where
  "libraries_render v = (case v of JArr libs \<Rightarrow> list_all library_item_renders libs | _ \<Rightarrow> False)"

definition xblocks_render :: "jsval \<Rightarrow> bool" where
  "xblocks_render v = (case v of JArr bs \<Rightarrow> list_all block_item_renders bs | _ \<Rightarrow> False)"

definition renders :: "picker_state \<Rightarrow> bool" where
  "renders s \<longleftrightarrow> libraries_render (libraries s) \<and> xblocks_render (xblocks s)"

text \<open>
  React renders the component again after \<open>setState\<close>. When \<open>render\<close> throws, with
  no error boundary around the component, React 16 unmounts it; the state keeps what
  was set. The handlers of user events change neither of the two lists, so a component
  that has rendered renders again after them; a response can change that.
\<close>

definition rerender :: "world \<Rightarrow> world" where
  "rerender w = (if renders (state w) then w else w\<lparr>mounted := False\<rparr>)"

text \<open>
  The request at position \<open>k\<close> of those in flight settles. \<open>resolve\<close>: the body parsed
  as JSON to \<open>response\<close>, and the last \<open>then\<close> callback sets the state, after which
  the component renders again (React ignores \<open>setState\<close> on an unmounted component).
  \<open>reject\<close>: the fetch or the parse failed; there is no handler, so nothing else
  changes.
\<close>

definition remove_nth :: "nat \<Rightarrow> 'a list \<Rightarrow> 'a list" where
  "remove_nth k xs = take k xs @ drop (Suc k) xs"

definition resolve :: "nat \<Rightarrow> jsval \<Rightarrow> world \<Rightarrow> world option" where
  "resolve k response w =
     (if k < length (inflight w) then
        (let r = inflight w ! k;
             w1 = w\<lparr>inflight := remove_nth k (inflight w)\<rparr>
         in if mounted w1 then
              (case r of
                 LibrariesReq _ \<Rightarrow>
                   Some (rerender (w1\<lparr>state := (state w1)\<lparr>libraries := response\<rparr>\<rparr>))
               | XblocksReq _ _ \<Rightarrow>
                   Some (rerender (w1\<lparr>state := (state w1)\<lparr>xblocks := response\<rparr>\<rparr>)))
            else Some w1)
      else None)"

definition reject :: "nat \<Rightarrow> world \<Rightarrow> world option" where
  "reject k w =
     (if k < length (inflight w) then Some (w\<lparr>inflight := remove_nth k (inflight w)\<rparr>)
      else None)"

subsection \<open>The event loop\<close>

text \<open>
  One turn of the event loop. A user event on an input first gives the input its new
  value, then runs the handler; user events need the mounted component. \<open>Elapse d\<close>
  lets \<open>d\<close> ms pass, which is possible only up to the next expiry of a pending timer;
  \<open>TimerFires\<close> runs the closure of a timer that has expired. The class has no
  \<open>componentWillUnmount\<close>, so \<open>Unmount\<close> runs no code of the component. \<open>None\<close>: the
  event cannot happen in this world.
\<close>

datatype search_field = LibraryField | XBlockField

datatype event =
    LibraryInputChange string
  | XBlockInputChange string
  | LibrarySelected string
  | XblockSelected bool string
  | DeleteClick string
  | SaveClick
  | Elapse nat
  | TimerFires search_field
  | Resolve nat jsval
  | Reject nat
  | Unmount

definition expires_by :: "debounced option \<Rightarrow> nat \<Rightarrow> bool" where
  "expires_by d t = (case d of
       None \<Rightarrow> False
     | Some d' \<Rightarrow> (case timeout d' of None \<Rightarrow> False | Some e \<Rightarrow> e \<le> t))"

definition before_expiry :: "debounced option \<Rightarrow> nat \<Rightarrow> bool" where
  "before_expiry d t = (case d of
       None \<Rightarrow> True
     | Some d' \<Rightarrow> (case timeout d' of None \<Rightarrow> True | Some e \<Rightarrow> t \<le> e))"

definition clear_timeout :: "debounced option \<Rightarrow> debounced option" where
  "clear_timeout d = map_option (\<lambda>d'. d'\<lparr>timeout := None\<rparr>) d"

definition timer_fires :: "search_field \<Rightarrow> world \<Rightarrow> world option" where
  "timer_fires f w = (case f of
       LibraryField \<Rightarrow>
         (case debouncedFetchLibraries w of
            None \<Rightarrow> None
          | Some d \<Rightarrow>
              if expires_by (Some d) (now w) then
                Some (debouncedFetchLibraries_body (captured_target d)
                        (w\<lparr>debouncedFetchLibraries := clear_timeout (Some d)\<rparr>))
              else None)
     | XBlockField \<Rightarrow>
         (case debouncedFetchXblocks w of
            None \<Rightarrow> None
          | Some d \<Rightarrow>
              if expires_by (Some d) (now w) then
                Some (debouncedFetchXblocks_body (captured_target d)
                        (w\<lparr>debouncedFetchXblocks := clear_timeout (Some d)\<rparr>))
              else None))"

definition elapse :: "nat \<Rightarrow> world \<Rightarrow> world option" where
  "elapse d w =
     (if before_expiry (debouncedFetchLibraries w) (now w + d)
         \<and> before_expiry (debouncedFetchXblocks w) (now w + d)
      then Some (w\<lparr>now := now w + d\<rparr>) else None)"

definition user :: "world \<Rightarrow> world \<Rightarrow> world option" where
  "user w w' = (if mounted w then Some w' else None)"

fun step :: "world \<Rightarrow> event \<Rightarrow> world option" where
  "step w (LibraryInputChange text) =
     user w (onLibraryInputChange LibraryInput (w\<lparr>libraryInput_value := text\<rparr>))"
| "step w (XBlockInputChange text) =
     user w (onXBlockInputChange XBlockInput (w\<lparr>xblockInput_value := text\<rparr>))"
| "step w (LibrarySelected v) = user w (onLibrarySelected v w)"
| "step w (XblockSelected checked v) = user w (onXblockSelected checked v w)"
| "step w (DeleteClick v) = user w (onDeleteClick v w)"
| "step w SaveClick = user w (onSaveClick w)"
| "step w (Elapse d) = elapse d w"
| "step w (TimerFires f) = timer_fires f w"
| "step w (Resolve k response) = resolve k response w"
| "step w (Reject k) = reject k w"
| "step w Unmount = (if mounted w then Some (w\<lparr>mounted := False\<rparr>) else None)"

fun run :: "world \<Rightarrow> event list \<Rightarrow> world option" where
  "run w [] = Some w"
| "run w (e # es) = (case step w e of None \<Rightarrow> None | Some w' \<Rightarrow> run w' es)"

section \<open>The expected selection\<close>

text \<open>
  What the specification expects of the selection after a sequence of events, in its own
  words: an id is selected iff the last event concerning it was an add, or no event
  concerned it and it was selected initially. A checkbox toggle concerns its id as an
  add when the box is now checked and as a remove otherwise; a delete click concerns its
  id as a remove.
\<close>

fun concerns :: "event \<Rightarrow> string \<Rightarrow> bool option" where
  "concerns (XblockSelected checked v) x = (if v = x then Some checked else None)"
| "concerns (DeleteClick v) x = (if v = x then Some False else None)"
| "concerns _ x = None"

fun last_concerning :: "string \<Rightarrow> event list \<Rightarrow> bool option" where
  "last_concerning x [] = None"
| "last_concerning x (e # es) =
     (case last_concerning x es of Some b \<Rightarrow> Some b | None \<Rightarrow> concerns e x)"

definition expected_membership :: "string set \<Rightarrow> event list \<Rightarrow> string \<Rightarrow> bool" where
  "expected_membership init es x =
     (case last_concerning x es of Some added \<Rightarrow> added | None \<Rightarrow> x \<in> init)"

fun is_selection_event :: "event \<Rightarrow> bool" where
  "is_selection_event (XblockSelected _ _) = True"
| "is_selection_event (DeleteClick _) = True"
| "is_selection_event _ = False"

section \<open>Bursts of text changes\<close>

text \<open>
  The vocabulary of the statements about the two debounced searches: the debounced
  function and the input of a search field, the text-change event on it, and a burst:
  a first text change followed by further ones, each after a gap. \<open>query\<close> is the
  request the field's closure makes.
\<close>

fun debounced_of :: "search_field \<Rightarrow> world \<Rightarrow> debounced option" where
  "debounced_of LibraryField w = debouncedFetchLibraries w"
| "debounced_of XBlockField w = debouncedFetchXblocks w"

fun input_of :: "search_field \<Rightarrow> element" where
  "input_of LibraryField = LibraryInput"
| "input_of XBlockField = XBlockInput"

fun other_field :: "search_field \<Rightarrow> search_field" where
  "other_field LibraryField = XBlockField"
| "other_field XBlockField = LibraryField"

definition pending :: "debounced option \<Rightarrow> bool" where
  "pending d = (case d of None \<Rightarrow> False | Some d' \<Rightarrow> timeout d' \<noteq> None)"

fun input_change :: "search_field \<Rightarrow> string \<Rightarrow> event" where
  "input_change LibraryField t = LibraryInputChange t"
| "input_change XBlockField t = XBlockInputChange t"

fun burst :: "search_field \<Rightarrow> string \<Rightarrow> (nat \<times> string) list \<Rightarrow> event list" where
  "burst f t [] = [input_change f t]"
| "burst f t ((d, t') # rest) = input_change f t # Elapse d # burst f t' rest"

fun last_text :: "string \<Rightarrow> (nat \<times> string) list \<Rightarrow> string" where
  "last_text t [] = t"
| "last_text t ((d, t') # rest) = last_text t' rest"

fun query :: "search_field \<Rightarrow> string option \<Rightarrow> string \<Rightarrow> request" where
  "query LibraryField library t = LibrariesReq t"
| "query XBlockField library t = XblocksReq library t"

text \<open>
  Each debounced function was created by the handler of its own input, so the event
  its closure captured has that input as target.
\<close>

definition closures_ok :: "world \<Rightarrow> bool" where
  "closures_ok w \<longleftrightarrow>
     (case debouncedFetchLibraries w of
        None \<Rightarrow> True | Some d \<Rightarrow> captured_target d = LibraryInput)
   \<and> (case debouncedFetchXblocks w of
        None \<Rightarrow> True | Some d \<Rightarrow> captured_target d = XBlockInput)"

text \<open>
  The world right after a text change on field \<open>f\<close>: the field's timer runs for the
  full 300 ms, its input holds the text, and the other field's timer is idle.
\<close>

definition armed :: "search_field \<Rightarrow> string \<Rightarrow> world \<Rightarrow> bool" where
  "armed f t w \<longleftrightarrow> mounted w \<and> closures_ok w
     \<and> (\<exists>d. debounced_of f w = Some d \<and> timeout d = Some (now w + 300))
     \<and> target_value (input_of f) w = t
     \<and> \<not> pending (debounced_of (other_field f) w)"

section \<open>Observations\<close>

text \<open>What a run of events leaves behind, seen through \<open>g\<close>.\<close>

definition observe :: "(world \<Rightarrow> 'a) \<Rightarrow> world \<Rightarrow> event list \<Rightarrow> 'a option" where
  "observe g w es = map_option g (run w es)"

definition blocks :: "world \<Rightarrow> jsval" where
  "blocks w = xblocks (state w)"

definition library_timer_pending :: "world \<Rightarrow> bool" where
  "library_timer_pending w = pending (debouncedFetchLibraries w)"

fun is_LibrarySelected :: "event \<Rightarrow> bool" where
  "is_LibrarySelected (LibrarySelected _) = True"
| "is_LibrarySelected _ = False"

fun is_XblocksReq :: "request \<Rightarrow> bool" where
  "is_XblocksReq (XblocksReq _ _) = True"
| "is_XblocksReq _ = False"

text \<open>The library a request is scoped to; a libraries request is scoped to none.\<close>

fun req_library :: "request \<Rightarrow> string option" where
  "req_library (XblocksReq library _) = library"
| "req_library (LibrariesReq _) = None"

definition unselected :: "world \<Rightarrow> bool" where
  "unselected w \<longleftrightarrow> selectedLibrary (state w) = None
     \<and> (\<forall>r \<in> set (issued w). req_library r = None)"

definition no_block_query :: "world \<Rightarrow> bool" where
  "no_block_query w \<longleftrightarrow> (\<forall>r \<in> set (issued w). \<not> is_XblocksReq r)"

section \<open>The save handler of the author view\<close>

text \<open>
  What \<open>LibrarySourceBlockAuthorView\<close> takes from its surroundings and does not
  define: the translation function \<open>gettext\<close>, \<open>JSON.parse\<close> (\<open>None\<close>: it throws a
  SyntaxError), the truth value and the string of a number, and \<open>jQuery.map\<close> on
  anything that is not an array (\<open>None\<close>: it throws).
\<close>

record js_host =
  gettext :: "string \<Rightarrow> string"
  JSON_parse :: "string \<Rightarrow> jsval option"
  Number_truthy :: "string \<Rightarrow> bool"
  Number_toString :: "string \<Rightarrow> string"
  jQuery_map_nonarray :: "jsval \<Rightarrow> (jsval \<Rightarrow> jsval option) \<Rightarrow> jsval list option"

text \<open>\<open>typeof v === 'object'\<close>.\<close>

fun typeof_object :: "jsval \<Rightarrow> bool" where
  "typeof_object JNull = True"
| "typeof_object (JArr _) = True"
| "typeof_object (JObj _) = True"
| "typeof_object _ = False"

text \<open>The truth value of a value used as a condition.\<close>

fun truthy :: "js_host \<Rightarrow> jsval \<Rightarrow> bool" where
  "truthy h JUndefined = False"
| "truthy h JNull = False"
| "truthy h (JBool b) = b"
| "truthy h (JNum n) = Number_truthy h n"
| "truthy h (JStr s) = (s \<noteq> [])"
| "truthy h (JArr _) = True"
| "truthy h (JObj _) = True"

fun separate :: "string \<Rightarrow> string list \<Rightarrow> string" where
  "separate sep [] = []"
| "separate sep [s] = s"
| "separate sep (s # t # ss) = s @ sep @ separate sep (t # ss)"

text \<open>
  The string of a value, and \<open>Array.prototype.join\<close>: \<open>null\<close> and \<open>undefined\<close>
  elements give the empty string, an array is the join of its elements with a comma.
\<close>

fun ToString :: "js_host \<Rightarrow> jsval \<Rightarrow> string" where
  "ToString h JUndefined = ''undefined''"
| "ToString h JNull = ''null''"
| "ToString h (JBool b) = (if b then ''true'' else ''false'')"
| "ToString h (JNum n) = Number_toString h n"
| "ToString h (JStr s) = s"
| "ToString h (JArr xs) =
     separate '','' (map (\<lambda>x. if x = JNull \<or> x = JUndefined then [] else ToString h x) xs)"
| "ToString h (JObj _) = ''[object Object]''"

definition join :: "js_host \<Rightarrow> jsval list \<Rightarrow> string \<Rightarrow> string" where
  "join h xs sep =
     separate sep (map (\<lambda>x. if x = JNull \<or> x = JUndefined then [] else ToString h x) xs)"

text \<open>
  \<open>jQuery.map\<close> on an array: the callback on each element in turn (an exception of the
  callback ends the call), results other than \<open>null\<close> and \<open>undefined\<close> are kept, and
  the kept results that are arrays are flattened one level.
\<close>

fun map_array :: "(jsval \<Rightarrow> jsval option) \<Rightarrow> jsval list \<Rightarrow> jsval list option" where
  "map_array callback [] = Some []"
| "map_array callback (x # xs) =
     (case callback x of
        None \<Rightarrow> None
      | Some v \<Rightarrow>
          (case map_array callback xs of
             None \<Rightarrow> None
           | Some ret \<Rightarrow> Some (if v = JNull \<or> v = JUndefined then ret else v # ret)))"

definition flatten :: "jsval list \<Rightarrow> jsval list" where
  "flatten ret = concat (map (\<lambda>v. case v of JArr ys \<Rightarrow> ys | _ \<Rightarrow> [v]) ret)"

definition jQuery_map ::
  "js_host \<Rightarrow> jsval \<Rightarrow> (jsval \<Rightarrow> jsval option) \<Rightarrow> jsval list option" where
  "jQuery_map h elems callback = (case elems of
       JArr xs \<Rightarrow> map_option flatten (map_array callback xs)
     | _ \<Rightarrow> jQuery_map_nonarray h elems callback)"

text \<open>\<open>s.substr(start, len)\<close> for a start and a length that are not negative.\<close>

definition substr :: "string \<Rightarrow> nat \<Rightarrow> nat \<Rightarrow> string" where
  "substr s start len = take len (drop start s)"

definition default_message :: string where
  "default_message = ''This may be happening because of an error with our server or your internet connection. Try refreshing the page or making sure you are online.''"

text \<open>
  The body of the \<open>try\<close> block of the \<open>fail\<close> callback: the message it leaves, or
  \<open>None\<close> when it throws.
\<close>

definition try_message :: "js_host \<Rightarrow> string \<Rightarrow> jsval option" where
  "try_message h responseText =
     (case JSON_parse h responseText of
        None \<Rightarrow> None
      | Some parsed \<Rightarrow>
          (case get_prop parsed ''error'' of
             None \<Rightarrow> None
           | Some message \<Rightarrow>
               if typeof_object message then
                 (case get_prop message ''messages'' of
                    None \<Rightarrow> None
                  | Some messages \<Rightarrow>
                      if truthy h messages then
                        (case jQuery_map h messages (\<lambda>msg. get_prop msg ''text'') of
                           None \<Rightarrow> None
                         | Some texts \<Rightarrow> Some (JStr (join h texts '', '')))
                      else Some message)
               else Some message))"

text \<open>
  The message of the \<open>fail\<close> callback, given \<open>jqXHR.responseText\<close> (\<open>None\<close>:
  \<open>undefined\<close>), and the notification it sends.
\<close>

definition fail_message :: "js_host \<Rightarrow> string option \<Rightarrow> jsval" where
  "fail_message h responseText =
     (let message = JStr (gettext h default_message)
      in case responseText of
           None \<Rightarrow> message
         | Some body \<Rightarrow>
             if body = [] then message
             else (case try_message h body of
                     Some message' \<Rightarrow> message'
                   | None \<Rightarrow> JStr (substr body 0 300)))"

record notification =
  notify_name :: string
  notify_title :: string
  notify_message :: jsval

definition fail :: "js_host \<Rightarrow> string option \<Rightarrow> notification" where
  "fail h responseText =
     \<lparr>notify_name = ''error'', notify_title = gettext h ''Unable to update settings'',
      notify_message = fail_message h responseText\<rparr>"

text \<open>
  The \<open>save\<close> handler, given the parameters of the event: the settings of its
  \<open>$.ajax\<close> call, with the data as the value handed to \<open>JSON.stringify\<close>.
\<close>

record ajax_settings =
  ajax_type :: string
  ajax_url :: string
  ajax_data :: jsval
  ajax_global :: bool

definition save_handler :: "save_params \<Rightarrow> ajax_settings" where
  "save_handler params =
     \<lparr>ajax_type = ''POST'', ajax_url = save_url params,
      ajax_data =
        JObj [(''values'',
                JObj [(''source_block_ids'', JArr (map JStr (source_block_ids params)))]),
              (''defaults'', JArr [JStr ''display_name''])],
      ajax_global = False\<rparr>"

text \<open>
  A host to try the handler on: no translation, and a \<open>JSON.parse\<close> that knows two
  bodies and rejects every other text.
\<close>

definition example_host :: js_host where
  \<open>example_host =
     \<lparr>gettext = (\<lambda>s. s),
      JSON_parse = (\<lambda>s.
        if s = ''{"error":"Unknown user"}''
        then Some (JObj [(''error'', JStr ''Unknown user'')])
        else if s = ''{"error":{"messages":[{"text":"Unknown user","type":"error"},{"text":"Retry"}]}}''
        then Some (JObj [(''error'', JObj [(''messages'',
               JArr [JObj [(''text'', JStr ''Unknown user''), (''type'', JStr ''error'')],
                     JObj [(''text'', JStr ''Retry'')]])])])
        else None),
      Number_truthy = (\<lambda>n. True),
      Number_toString = (\<lambda>n. n),
      jQuery_map_nonarray = (\<lambda>elems callback. None)\<rparr>\<close>

section \<open>The selection set\<close>

lemma set_add_set: "set (set_add s x) = insert x (set s)"
  by (auto simp: set_add_def)

lemma set_add_distinct: "distinct s \<Longrightarrow> distinct (set_add s x)"
  by (simp add: set_add_def)

lemma set_delete_set: "set (set_delete s x) = set s - {x}"
  by (auto simp: set_delete_def)

lemma set_delete_distinct: "distinct s \<Longrightarrow> distinct (set_delete s x)"
  by (simp add: set_delete_def)

lemma foldl_set_add_set: "set (foldl set_add acc xs) = set acc \<union> set xs"
  by (induction xs arbitrary: acc) (auto simp: set_add_set)

lemma foldl_set_add_distinct: "distinct acc \<Longrightarrow> distinct (foldl set_add acc xs)"
  by (induction xs arbitrary: acc) (auto simp: set_add_distinct)

lemma new_Set_set: "set (new_Set xs) = set xs"
  by (simp add: new_Set_def foldl_set_add_set)

lemma new_Set_distinct: "distinct (new_Set xs)"
  by (simp add: new_Set_def foldl_set_add_distinct)

text \<open>Copying a set, as the handlers do before they change it, gives the same set.\<close>

lemma foldl_set_add_copy: "distinct (acc @ xs) \<Longrightarrow> foldl set_add acc xs = acc @ xs"
  by (induction xs arbitrary: acc) (auto simp: set_add_def)

lemma new_Set_copy: "distinct s \<Longrightarrow> new_Set s = s"
  by (simp add: new_Set_def foldl_set_add_copy)

lemma constructor_selected:
  "selectedXblocks (state (constructor p t0)) = new_Set (props_selectedXblocks p)"
  "mounted (constructor p t0)"
  by (simp_all add: constructor_def fetchLibraries_def Let_def)

text \<open>One toggle or delete: the handler runs, and the membership changes as the event says.\<close>

lemma selection_step:
  assumes "is_selection_event e" "mounted w"
  shows "\<exists>w'. step w e = Some w' \<and> mounted w'
           \<and> distinct (selectedXblocks (state w'))
           \<and> (\<forall>x. x \<in> set (selectedXblocks (state w')) \<longleftrightarrow>
                  (case concerns e x of Some b \<Rightarrow> b
                   | None \<Rightarrow> x \<in> set (selectedXblocks (state w))))"
  using assms
  by (cases e)
     (auto simp: user_def onXblockSelected_def onDeleteClick_def Let_def new_Set_set
        new_Set_distinct set_add_set set_add_distinct set_delete_set set_delete_distinct)

lemma selection_run:
  assumes "\<forall>e \<in> set es. is_selection_event e" "mounted w"
  shows "\<exists>w'. run w es = Some w' \<and> mounted w'
           \<and> (es \<noteq> [] \<longrightarrow> distinct (selectedXblocks (state w')))
           \<and> (\<forall>x. x \<in> set (selectedXblocks (state w')) \<longleftrightarrow>
                  expected_membership (set (selectedXblocks (state w))) es x)"
  using assms
proof (induction es arbitrary: w)
  case Nil
  then show ?case by (simp add: expected_membership_def)
next
  case (Cons e es)
  from Cons.prems obtain w1 where w1: "step w e = Some w1" "mounted w1"
    "distinct (selectedXblocks (state w1))"
    "\<forall>x. x \<in> set (selectedXblocks (state w1)) \<longleftrightarrow>
       (case concerns e x of Some b \<Rightarrow> b | None \<Rightarrow> x \<in> set (selectedXblocks (state w)))"
    using selection_step [of e w] by auto
  from Cons.IH [of w1] Cons.prems w1 obtain w' where w': "run w1 es = Some w'" "mounted w'"
    "es \<noteq> [] \<longrightarrow> distinct (selectedXblocks (state w'))"
    "\<forall>x. x \<in> set (selectedXblocks (state w')) \<longleftrightarrow>
       expected_membership (set (selectedXblocks (state w1))) es x"
    by auto
  have d: "distinct (selectedXblocks (state w'))"
    using w' w1 by (cases es) auto
  have m: "\<forall>x. x \<in> set (selectedXblocks (state w')) \<longleftrightarrow>
       expected_membership (set (selectedXblocks (state w))) (e # es) x"
    using w'(4) w1(4) by (auto simp: expected_membership_def split: option.splits)
  show ?case using w1 w' d m by simp
qed

text \<open>
  C1. For every sequence of checkbox toggles and delete clicks, from the selection the
  component was constructed with (any list of ids, repeated or not): every handler
  runs, the resulting selection holds no id twice, and the snapshot \<open>Array.from\<close> of it
  contains an id iff the last event concerning that id was an add, or no event concerned
  it and it was among the initial ids.
\<close>

theorem selection_membership:
  assumes "\<forall>e \<in> set es. is_selection_event e"
  shows "\<exists>w'. run (constructor p t0) es = Some w'
           \<and> distinct (selectedXblocks (state w'))
           \<and> distinct (Array_from (selectedXblocks (state w')))
           \<and> (\<forall>x. x \<in> set (Array_from (selectedXblocks (state w'))) \<longleftrightarrow>
                  expected_membership (set (props_selectedXblocks p)) es x)"
proof -
  obtain w' where w': "run (constructor p t0) es = Some w'"
    "es \<noteq> [] \<longrightarrow> distinct (selectedXblocks (state w'))"
    "\<forall>x. x \<in> set (selectedXblocks (state w')) \<longleftrightarrow>
       expected_membership (set (selectedXblocks (state (constructor p t0)))) es x"
    using selection_run [OF assms, of "constructor p t0"] constructor_selected(2) by blast
  have "distinct (selectedXblocks (state w'))"
  proof (cases es)
    case Nil
    with w'(1) have "w' = constructor p t0" by simp
    then show ?thesis by (simp add: constructor_selected new_Set_distinct)
  next
    case Cons
    then show ?thesis using w'(2) by simp
  qed
  then show ?thesis using w'
    by (simp add: Array_from_def constructor_selected new_Set_set)
qed

theorem selection_membership_witness:
  "\<exists>w'. run (constructor \<lparr>saveUrl = ''/save'', props_selectedXblocks = [''C'', ''D'', ''C'']\<rparr> 0)
              [XblockSelected True ''A'', XblockSelected True ''B'', DeleteClick ''A'',
               XblockSelected True ''A'', XblockSelected False ''C''] = Some w'
        \<and> distinct (selectedXblocks (state w'))
        \<and> distinct (Array_from (selectedXblocks (state w')))
        \<and> (\<forall>x. x \<in> set (Array_from (selectedXblocks (state w'))) \<longleftrightarrow>
               expected_membership (set (props_selectedXblocks
                   \<lparr>saveUrl = ''/save'', props_selectedXblocks = [''C'', ''D'', ''C'']\<rparr>))
                 [XblockSelected True ''A'', XblockSelected True ''B'', DeleteClick ''A'',
                  XblockSelected True ''A'', XblockSelected False ''C''] x)"
proof -
  have h: "\<forall>e \<in> set [XblockSelected True ''A'', XblockSelected True ''B'', DeleteClick ''A'',
        XblockSelected True ''A'', XblockSelected False ''C'']. is_selection_event e"
    by simp
  show ?thesis
    using selection_membership [OF h,
        of "\<lparr>saveUrl = ''/save'', props_selectedXblocks = [''C'', ''D'', ''C'']\<rparr>" 0]
    by blast
qed

section \<open>Runs of the event loop\<close>

lemmas handler_defs = user_def onLibraryInputChange_def onXBlockInputChange_def
  onLibrarySelected_def onXblockSelected_def onDeleteClick_def onSaveClick_def
  fetchXblocks_def fetchLibraries_def call_debounced_def elapse_def timer_fires_def
  debouncedFetchLibraries_body_def debouncedFetchXblocks_body_def clear_timeout_def
  resolve_def rerender_def reject_def remove_nth_def target_value_def expires_by_def
  before_expiry_def Let_def

lemma run_append:
  "run w (es @ es') = (case run w es of None \<Rightarrow> None | Some w' \<Rightarrow> run w' es')"
  by (induction es arbitrary: w) (auto split: option.splits)

lemma props_step: "step w e = Some w' \<Longrightarrow> props w' = props w"
  by (cases e)
     (auto simp: handler_defs
        split: if_splits option.splits search_field.splits request.splits)

lemma props_run: "run w es = Some w' \<Longrightarrow> props w' = props w"
  by (induction es arbitrary: w) (auto split: option.splits dest: props_step)

lemma closures_ok_constructor: "closures_ok (constructor p t0)"
  by (simp add: closures_ok_def constructor_def fetchLibraries_def Let_def)

lemma closures_ok_step: "closures_ok w \<Longrightarrow> step w e = Some w' \<Longrightarrow> closures_ok w'"
  by (cases e)
     (auto simp: closures_ok_def handler_defs
        split: if_splits option.splits search_field.splits request.splits)

lemma closures_ok_run: "closures_ok w \<Longrightarrow> run w es = Some w' \<Longrightarrow> closures_ok w'"
  by (induction es arbitrary: w) (auto split: option.splits dest: closures_ok_step)

lemma reachable_closures_ok: "run (constructor p t0) pre = Some w \<Longrightarrow> closures_ok w"
  using closures_ok_run [OF closures_ok_constructor] .

subsection \<open>Rendering\<close>

lemmas render_defs = renders_def libraries_render_def xblocks_render_def
  library_item_renders_def block_item_renders_def

text \<open>
  What renders and what does not: a list of blocks or libraries as the catalog sends
  them does; an error body (an object), \<open>null\<close>, a list with a \<open>null\<close> element and
  an item whose shown property is an object do not.
\<close>

lemma render_examples:
  "xblocks_render (JArr [JObj [(''id'', JStr ''b1''), (''display_name'', JStr ''Block 1'')]])"
  "xblocks_render (JArr [])"
  "\<not> xblocks_render (JObj [(''detail'', JStr ''Not found'')])"
  "\<not> xblocks_render JNull"
  "\<not> xblocks_render (JArr [JNull])"
  "\<not> xblocks_render (JArr [JObj [(''id'', JStr ''b1''), (''display_name'', JObj [])]])"
  "\<not> xblocks_render (JArr [JObj [(''id'', JObj []), (''display_name'', JStr ''Block 1'')]])"
  "libraries_render (JArr [JObj [(''id'', JStr ''lib1''), (''title'', JStr ''Library 1'')]])"
  "libraries_render (JArr [JObj [(''id'', JObj []), (''title'', JArr [JStr ''a'', JNum ''1'']) ]])"
  "\<not> libraries_render (JStr ''Not found'')"
  "\<not> libraries_render (JArr [JNull])"
  "\<not> libraries_render (JArr [JObj [(''id'', JStr ''lib1''), (''title'', JArr [JObj []])]])"
  by (simp_all add: render_defs)





section \<open>Debounced searches\<close>

lemma input_change_armed:
  assumes "mounted w" "closures_ok w" "\<not> pending (debounced_of (other_field f) w)"
  shows "\<exists>w'. step w (input_change f t) = Some w' \<and> armed f t w'
           \<and> issued w' = issued w \<and> selectedLibrary (state w') = selectedLibrary (state w)"
  using assms
  by (cases f)
     (auto simp: armed_def closures_ok_def user_def onLibraryInputChange_def
        onXBlockInputChange_def call_debounced_def target_value_def Let_def pending_def
        split: option.splits)

lemma armed_elapse:
  assumes "armed f t w" "d \<le> 300"
  shows "\<exists>w'. step w (Elapse d) = Some w' \<and> mounted w' \<and> closures_ok w'
           \<and> \<not> pending (debounced_of (other_field f) w')
           \<and> issued w' = issued w \<and> selectedLibrary (state w') = selectedLibrary (state w)"
  using assms
  by (cases f)
     (auto simp: armed_def closures_ok_def elapse_def before_expiry_def pending_def
        split: option.splits)

lemma burst_armed:
  assumes "mounted w" "closures_ok w" "\<not> pending (debounced_of (other_field f) w)"
    "\<forall>(d, t') \<in> set rest. d < 300"
  shows "\<exists>w'. run w (burst f t rest) = Some w' \<and> armed f (last_text t rest) w'
           \<and> issued w' = issued w \<and> selectedLibrary (state w') = selectedLibrary (state w)"
  using assms
proof (induction f t rest arbitrary: w rule: burst.induct)
  case (1 f t)
  then show ?case using input_change_armed [of w f t] by auto
next
  case (2 f t d t' rest)
  from "2.prems" obtain w1 where w1: "step w (input_change f t) = Some w1"
    "armed f t w1" "issued w1 = issued w"
    "selectedLibrary (state w1) = selectedLibrary (state w)"
    using input_change_armed [of w f t] by auto
  from "2.prems" have d: "d \<le> 300" by simp
  from armed_elapse [OF w1(2) d] obtain w2 where w2: "step w1 (Elapse d) = Some w2"
    "mounted w2" "closures_ok w2" "\<not> pending (debounced_of (other_field f) w2)"
    "issued w2 = issued w1" "selectedLibrary (state w2) = selectedLibrary (state w1)"
    by auto
  from "2.prems" have "\<forall>(d, t') \<in> set rest. d < 300" by simp
  from "2.IH" [OF w2(2,3,4) this] obtain w' where
    "run w2 (burst f t' rest) = Some w'" "armed f (last_text t' rest) w'"
    "issued w' = issued w2" "selectedLibrary (state w') = selectedLibrary (state w2)"
    by auto
  then show ?case using w1 w2 by simp
qed

lemma armed_early:
  assumes "armed f t w" "d < 300"
  shows "run w [Elapse d, TimerFires f] = None"
  using assms
  by (cases f)
     (auto simp: armed_def elapse_def timer_fires_def expires_by_def
        split: option.splits)

lemma armed_fires:
  assumes "armed f t w"
  shows "\<exists>w'. run w [Elapse 300, TimerFires f] = Some w'
           \<and> issued w' = issued w @ [query f (selectedLibrary (state w)) t]
           \<and> (\<forall>d. run w' [Elapse d, TimerFires f] = None)"
  using assms
  by (cases f)
     (auto simp: armed_def closures_ok_def elapse_def timer_fires_def expires_by_def
        before_expiry_def pending_def clear_timeout_def debouncedFetchLibraries_body_def
        debouncedFetchXblocks_body_def fetchLibraries_def fetchXblocks_def target_value_def
        Let_def split: option.splits)

text \<open>
  C2. In a world reached from the constructor, with the component mounted and the other
  field's timer idle, take a burst of text changes on one search field, each less than
  300 ms after the one before. The burst runs and issues no request; the field's closure
  cannot run before 300 ms have passed since the last change; once they have, it runs and
  issues exactly one request, whose text is that of the last change of the burst; after
  that the timer does not fire again.
\<close>

theorem debounce_burst:
  assumes "run (constructor p t0) pre = Some w" "mounted w"
    "\<not> pending (debounced_of (other_field f) w)"
    "\<forall>(d, t') \<in> set rest. d < 300"
  shows "\<exists>w1 w2. run w (burst f t rest) = Some w1
           \<and> issued w1 = issued w
           \<and> (\<forall>d<300. run w1 [Elapse d, TimerFires f] = None)
           \<and> run w1 [Elapse 300, TimerFires f] = Some w2
           \<and> issued w2 = issued w @ [query f (selectedLibrary (state w)) (last_text t rest)]
           \<and> (\<forall>d. run w2 [Elapse d, TimerFires f] = None)"
proof -
  have ok: "closures_ok w"
    using reachable_closures_ok [OF assms(1)] .
  from burst_armed [OF assms(2) ok assms(3,4)] obtain w1 where
    w1: "run w (burst f t rest) = Some w1" "armed f (last_text t rest) w1"
    "issued w1 = issued w" "selectedLibrary (state w1) = selectedLibrary (state w)"
    by blast
  from armed_fires [OF w1(2)] obtain w2 where
    w2: "run w1 [Elapse 300, TimerFires f] = Some w2"
    "issued w2 = issued w1 @ [query f (selectedLibrary (state w1)) (last_text t rest)]"
    "\<forall>d. run w2 [Elapse d, TimerFires f] = None"
    by blast
  have early: "\<forall>d<300. run w1 [Elapse d, TimerFires f] = None"
    using armed_early [OF w1(2)] by blast
  show ?thesis using w1 w2 early by auto
qed

theorem debounce_burst_witness:
  "\<exists>w1 w2. run (constructor defaultProps 0)
              (burst LibraryField ''a'' [(100, ''al''), (299, ''alg'')]) = Some w1
     \<and> issued w1 = issued (constructor defaultProps 0)
     \<and> (\<forall>d<300. run w1 [Elapse d, TimerFires LibraryField] = None)
     \<and> run w1 [Elapse 300, TimerFires LibraryField] = Some w2
     \<and> issued w2 = issued (constructor defaultProps 0) @
          [query LibraryField (selectedLibrary (state (constructor defaultProps 0)))
             (last_text ''a'' [(100, ''al''), (299, ''alg'')])]
     \<and> (\<forall>d. run w2 [Elapse d, TimerFires LibraryField] = None)"
proof -
  have r: "run (constructor defaultProps 0) [] = Some (constructor defaultProps 0)" by simp
  have m: "mounted (constructor defaultProps 0)" by (simp add: constructor_selected)
  have i: "\<not> pending (debounced_of (other_field LibraryField) (constructor defaultProps 0))"
    by (simp add: pending_def constructor_def fetchLibraries_def Let_def)
  have g: "\<forall>(d, t') \<in> set [(100, ''al''), (299, ''alg'')]. d < (300::nat)" by simp
  show ?thesis using debounce_burst [OF r m i g, of "''a''"] .
qed

section \<open>Block queries and their responses\<close>




text \<open>
  C4, as stated, fails. With L1 selected, a block-search text change schedules the
  query; 100 ms later L2 is selected; when the timer expires the closure reads
  \<open>this.state.selectedLibrary\<close> and asks for the blocks of L2, not of L1.
\<close>

theorem library_at_schedule_counterexample:
  "observe issued (constructor defaultProps 0)
     [LibrarySelected ''L1'', XBlockInputChange ''q'', Elapse 100, LibrarySelected ''L2'',
      Elapse 200, TimerFires XBlockField]
   = Some [LibrariesReq [], XblocksReq (Some ''L1'') [], XblocksReq (Some ''L2'') [],
           XblocksReq (Some ''L2'') ''q'']"
  by (simp add: observe_def constructor_def defaultProps_def new_Set_def handler_defs)

text \<open>
  C4, amended. When the timer of a debounced block search has expired, in any world
  reached from the constructor, its closure runs and issues one block request, for the
  library that is selected at that time (the time of expiry) and with the text the
  block-search input holds at that time.
\<close>

theorem library_at_expiry:
  assumes "run (constructor p t0) pre = Some w"
    "expires_by (debouncedFetchXblocks w) (now w)"
  shows "\<exists>w'. run (constructor p t0) (pre @ [TimerFires XBlockField]) = Some w'
           \<and> issued w' = issued w @
                [XblocksReq (selectedLibrary (state w)) (xblockInput_value w)]"
proof -
  have ok: "closures_ok w" using reachable_closures_ok [OF assms(1)] .
  from assms(2) obtain d where d: "debouncedFetchXblocks w = Some d"
    by (auto simp: expires_by_def split: option.splits)
  with ok have c: "captured_target d = XBlockInput" by (simp add: closures_ok_def)
  have "\<exists>w'. step w (TimerFires XBlockField) = Some w'
           \<and> issued w' = issued w @
                [XblocksReq (selectedLibrary (state w)) (xblockInput_value w)]"
    using assms(2) d c
    by (simp add: timer_fires_def debouncedFetchXblocks_body_def fetchXblocks_def
        target_value_def clear_timeout_def Let_def)
  then show ?thesis using assms(1) by (auto simp: run_append)
qed

theorem library_at_expiry_witness:
  "\<exists>w w'. run (constructor defaultProps 0)
              [LibrarySelected ''L1'', XBlockInputChange ''q'', Elapse 100,
               LibrarySelected ''L2'', Elapse 200] = Some w
     \<and> selectedLibrary (state w) = Some ''L2'' \<and> xblockInput_value w = ''q''
     \<and> run (constructor defaultProps 0)
          ([LibrarySelected ''L1'', XBlockInputChange ''q'', Elapse 100,
            LibrarySelected ''L2'', Elapse 200] @ [TimerFires XBlockField]) = Some w'
     \<and> issued w' = issued w @
          [XblocksReq (selectedLibrary (state w)) (xblockInput_value w)]"
proof -
  have "\<exists>w. run (constructor defaultProps 0)
              [LibrarySelected ''L1'', XBlockInputChange ''q'', Elapse 100,
               LibrarySelected ''L2'', Elapse 200] = Some w
     \<and> selectedLibrary (state w) = Some ''L2'' \<and> xblockInput_value w = ''q''
     \<and> expires_by (debouncedFetchXblocks w) (now w)"
    by (simp add: constructor_def defaultProps_def new_Set_def handler_defs)
  then obtain w where w: "run (constructor defaultProps 0)
              [LibrarySelected ''L1'', XBlockInputChange ''q'', Elapse 100,
               LibrarySelected ''L2'', Elapse 200] = Some w"
     "selectedLibrary (state w) = Some ''L2''" "xblockInput_value w = ''q''"
     "expires_by (debouncedFetchXblocks w) (now w)"
    by blast
  show ?thesis using w(1,2,3) library_at_expiry [OF w(1) w(4)] by blast
qed

text \<open>
  C6. A library-selected event with value \<open>v\<close> on the mounted component: the handler
  runs, the selected library is \<open>v\<close>, exactly one request is added to those issued, in
  this very turn and with no timer involved (clock and debounced function are as
  before), namely the block request for \<open>v\<close> with the empty text; the selection is
  unchanged; and whatever the response to that request, when it arrives the blocks
  list is that response, the selection still unchanged.
\<close>

theorem library_selected:
  assumes "mounted w"
  shows "\<exists>w'. step w (LibrarySelected v) = Some w'
           \<and> selectedLibrary (state w') = Some v
           \<and> issued w' = issued w @ [XblocksReq (Some v) []]
           \<and> inflight w' = inflight w @ [XblocksReq (Some v) []]
           \<and> now w' = now w
           \<and> debouncedFetchXblocks w' = debouncedFetchXblocks w
           \<and> selectedXblocks (state w') = selectedXblocks (state w)
           \<and> (\<forall>response. \<exists>w''.
                  step w' (Resolve (length (inflight w)) response) = Some w''
                  \<and> xblocks (state w'') = response
                  \<and> selectedXblocks (state w'') = selectedXblocks (state w)
                  \<and> issued w'' = issued w')"
  using assms by (simp add: handler_defs)

theorem library_selected_witness:
  "\<exists>w'. step (constructor defaultProps 0) (LibrarySelected ''L1'') = Some w'
     \<and> selectedLibrary (state w') = Some ''L1''
     \<and> issued w' = issued (constructor defaultProps 0) @ [XblocksReq (Some ''L1'') []]
     \<and> inflight w' = inflight (constructor defaultProps 0) @ [XblocksReq (Some ''L1'') []]
     \<and> now w' = now (constructor defaultProps 0)
     \<and> debouncedFetchXblocks w' = debouncedFetchXblocks (constructor defaultProps 0)
     \<and> selectedXblocks (state w') = selectedXblocks (state (constructor defaultProps 0))
     \<and> (\<forall>response. \<exists>w''.
            step w' (Resolve (length (inflight (constructor defaultProps 0))) response)
              = Some w''
            \<and> xblocks (state w'') = response
            \<and> selectedXblocks (state w'')
                = selectedXblocks (state (constructor defaultProps 0))
            \<and> issued w'' = issued w')"
proof -
  have m: "mounted (constructor defaultProps 0)" by (simp add: constructor_selected)
  show ?thesis using library_selected [OF m] .
qed

section \<open>Before the first library selection\<close>

text \<open>
  C5, as stated, fails in its second half. No library is ever selected; one text change
  in the block-search input, and 300 ms later the closure issues a block request, with
  the undefined library in its URL. Neither \<open>onXBlockInputChange\<close> nor its closure
  looks at whether a library is selected.
\<close>

theorem query_before_selection_counterexample:
  "observe issued (constructor defaultProps 0)
     [XBlockInputChange ''a'', Elapse 300, TimerFires XBlockField]
   = Some [LibrariesReq [], XblocksReq None ''a'']
   \<and> request_url (XblocksReq None ''a'') = ''/api/libraries/v2/undefined/blocks?text_search=a''"
  by (simp add: observe_def constructor_def defaultProps_def new_Set_def handler_defs
      request_url_def)

lemma unselected_constructor: "unselected (constructor p t0)"
  by (simp add: unselected_def constructor_def fetchLibraries_def Let_def)

lemma no_block_query_constructor: "no_block_query (constructor p t0)"
  by (simp add: no_block_query_def constructor_def fetchLibraries_def Let_def)

lemma unselected_step:
  "unselected w \<Longrightarrow> \<not> is_LibrarySelected e \<Longrightarrow> step w e = Some w' \<Longrightarrow> unselected w'"
  by (cases e)
     (auto simp: unselected_def handler_defs
        split: if_splits option.splits search_field.splits request.splits)

lemma no_block_query_step:
  "no_block_query w \<Longrightarrow> \<not> is_LibrarySelected e \<Longrightarrow> e \<noteq> TimerFires XBlockField
   \<Longrightarrow> step w e = Some w' \<Longrightarrow> no_block_query w'"
  by (cases e)
     (auto simp: no_block_query_def handler_defs
        split: if_splits option.splits search_field.splits request.splits)

lemma unselected_run:
  "unselected w \<Longrightarrow> \<forall>e \<in> set es. \<not> is_LibrarySelected e \<Longrightarrow> run w es = Some w'
   \<Longrightarrow> unselected w'"
  by (induction es arbitrary: w) (auto split: option.splits dest: unselected_step)

lemma no_block_query_run:
  "no_block_query w \<Longrightarrow> \<forall>e \<in> set es. \<not> is_LibrarySelected e
   \<Longrightarrow> TimerFires XBlockField \<notin> set es \<Longrightarrow> run w es = Some w'
   \<Longrightarrow> no_block_query w'"
proof (induction es arbitrary: w)
  case Nil
  then show ?case by simp
next
  case (Cons e es)
  then obtain w1 where w1: "step w e = Some w1" "run w1 es = Some w'"
    by (auto split: option.splits)
  from Cons.prems have "\<not> is_LibrarySelected e" "e \<noteq> TimerFires XBlockField" by auto
  from no_block_query_step [OF Cons.prems(1) this w1(1)] have "no_block_query w1" .
  from Cons.IH [OF this _ _ w1(2)] Cons.prems show ?case by simp
qed

text \<open>
  C5, amended. In every world reached from the constructor by events among which there
  is no library selection, the selected library is undefined, and every block request
  issued carries the undefined library; such a request is issued only when the timer of
  the debounced block search expires: a run in which it never does has issued no block
  request.
\<close>

theorem before_first_selection:
  assumes "run (constructor p t0) es = Some w" "\<forall>e \<in> set es. \<not> is_LibrarySelected e"
  shows "selectedLibrary (state w) = None
       \<and> (\<forall>l t. XblocksReq l t \<in> set (issued w) \<longrightarrow> l = None)
       \<and> (TimerFires XBlockField \<notin> set es \<longrightarrow> (\<forall>r \<in> set (issued w). \<not> is_XblocksReq r))"
proof -
  have "unselected w"
    using unselected_run [OF unselected_constructor assms(2) assms(1)] .
  moreover have "TimerFires XBlockField \<notin> set es \<Longrightarrow> no_block_query w"
    using no_block_query_run [OF no_block_query_constructor assms(2) _ assms(1)] .
  ultimately show ?thesis by (force simp: unselected_def no_block_query_def)
qed

theorem before_first_selection_witness:
  "\<exists>w. run (constructor defaultProps 0)
           [LibraryInputChange ''alg'', XBlockInputChange ''a'', XblockSelected True ''b1'',
            Elapse 300, TimerFires LibraryField, TimerFires XBlockField] = Some w
     \<and> selectedLibrary (state w) = None
     \<and> issued w = [LibrariesReq [], LibrariesReq ''alg'', XblocksReq None ''a'']"
proof -
  have "\<exists>w. run (constructor defaultProps 0)
           [LibraryInputChange ''alg'', XBlockInputChange ''a'', XblockSelected True ''b1'',
            Elapse 300, TimerFires LibraryField, TimerFires XBlockField] = Some w
     \<and> issued w = [LibrariesReq [], LibrariesReq ''alg'', XblocksReq None ''a'']"
    by (simp add: constructor_def defaultProps_def new_Set_def handler_defs)
  then obtain w where w: "run (constructor defaultProps 0)
           [LibraryInputChange ''alg'', XBlockInputChange ''a'', XblockSelected True ''b1'',
            Elapse 300, TimerFires LibraryField, TimerFires XBlockField] = Some w"
     "issued w = [LibrariesReq [], LibrariesReq ''alg'', XblocksReq None ''a'']"
    by blast
  have h: "\<forall>e \<in> set [LibraryInputChange ''alg'', XBlockInputChange ''a'',
            XblockSelected True ''b1'', Elapse 300, TimerFires LibraryField,
            TimerFires XBlockField]. \<not> is_LibrarySelected e"
    by simp
  from before_first_selection [OF w(1) h] have "selectedLibrary (state w) = None" by blast
  with w show ?thesis by blast
qed

section \<open>Saving\<close>

text \<open>
  C7. From any world with the component mounted, after any sequence of checkbox toggles
  and delete clicks, a save click runs and triggers one \<open>save\<close> event, whose parameters
  are the save URL of the props and the snapshot \<open>Array.from\<close> of the selection: an id
  is among \<open>source_block_ids\<close> iff the last event concerning it was an add, or none
  concerned it and it was selected before. The handler of the event posts these ids to
  that URL. The save click leaves the state, and so the selection, as it was.
\<close>

theorem save_click:
  assumes "mounted w" "\<forall>e \<in> set es. is_selection_event e"
  shows "\<exists>w1 w2. run w es = Some w1 \<and> step w1 SaveClick = Some w2
           \<and> triggered w2 = triggered w1 @
                [\<lparr>save_url = saveUrl (props w),
                  source_block_ids = Array_from (selectedXblocks (state w1))\<rparr>]
           \<and> (\<forall>x. x \<in> set (source_block_ids (last (triggered w2))) \<longleftrightarrow>
                  expected_membership (set (selectedXblocks (state w))) es x)
           \<and> ajax_url (save_handler (last (triggered w2))) = saveUrl (props w)
           \<and> ajax_data (save_handler (last (triggered w2))) =
                JObj [(''values'', JObj [(''source_block_ids'',
                         JArr (map JStr (selectedXblocks (state w1))))]),
                      (''defaults'', JArr [JStr ''display_name''])]
           \<and> state w2 = state w1"
proof -
  from selection_run [OF assms(2,1)] obtain w1 where w1: "run w es = Some w1" "mounted w1"
    "\<forall>x. x \<in> set (selectedXblocks (state w1)) \<longleftrightarrow>
       expected_membership (set (selectedXblocks (state w))) es x"
    by blast
  have p: "props w1 = props w" using props_run [OF w1(1)] .
  show ?thesis using w1 p
    by (simp add: user_def onSaveClick_def Let_def Array_from_def save_handler_def)
qed

theorem save_click_witness:
  "\<exists>w1 w2. run (constructor \<lparr>saveUrl = ''/save'', props_selectedXblocks = []\<rparr> 0)
              [XblockSelected True ''block-3''] = Some w1
     \<and> step w1 SaveClick = Some w2
     \<and> triggered w2 = triggered w1 @
          [\<lparr>save_url = ''/save'', source_block_ids = [''block-3'']\<rparr>]
     \<and> ''block-3'' \<in> set (source_block_ids (last (triggered w2)))
     \<and> state w2 = state w1"
proof -
  have m: "mounted (constructor \<lparr>saveUrl = ''/save'', props_selectedXblocks = []\<rparr> 0)"
    by (simp add: constructor_selected)
  have h: "\<forall>e \<in> set [XblockSelected True ''block-3'']. is_selection_event e" by simp
  from save_click [OF m h] obtain w1 w2 where
    w: "run (constructor \<lparr>saveUrl = ''/save'', props_selectedXblocks = []\<rparr> 0)
              [XblockSelected True ''block-3''] = Some w1"
     "step w1 SaveClick = Some w2"
     "triggered w2 = triggered w1 @
          [\<lparr>save_url = saveUrl (props (constructor
                \<lparr>saveUrl = ''/save'', props_selectedXblocks = []\<rparr> 0)),
            source_block_ids = Array_from (selectedXblocks (state w1))\<rparr>]"
     "state w2 = state w1"
    by blast
  from w(1) have "selectedXblocks (state w1) = [''block-3'']"
    by (auto simp: constructor_def new_Set_def set_add_def handler_defs)
  with w show ?thesis
    by (auto simp: Array_from_def constructor_def fetchLibraries_def Let_def)
qed

section \<open>The message of a failed save\<close>

lemma join_JStr: "join h (map JStr texts) sep = separate sep texts"
proof -
  have "map (\<lambda>x. if x = JNull \<or> x = JUndefined then [] else ToString h x) (map JStr texts)
          = texts"
    by (induction texts) auto
  then show ?thesis by (simp only: join_def)
qed

lemma map_array_texts:
  "list_all2 (\<lambda>m t. get_prop m ''text'' = Some (JStr t)) msgs texts
   \<Longrightarrow> map_array (\<lambda>msg. get_prop msg ''text'') msgs = Some (map JStr texts)"
  by (induction msgs texts rule: list_all2_induct) auto

lemma flatten_JStr: "flatten (map JStr texts) = map JStr texts"
  by (induction texts) (auto simp: flatten_def)

text \<open>
  C8. What the \<open>fail\<close> callback surfaces, for any host: it sends one \<open>error\<close>
  notification, titled with the translation of "Unable to update settings", and the
  message of that notification is computed from the response text: with no response
  text, or an empty one, the translated static message; with a text that \<open>JSON.parse\<close>
  rejects, the first 300 characters of the text; with a text that parses to an object
  whose \<open>error\<close> is a string, that string; with a text that parses to an object
  whose \<open>error\<close> is an object whose \<open>messages\<close> is an array of values with string
  \<open>text\<close> properties, those strings in order, joined with a comma and a space.
\<close>

theorem fail_message_cases:
  "notify_name (fail h responseText) = ''error''
   \<and> notify_title (fail h responseText) = gettext h ''Unable to update settings''
   \<and> (responseText = None \<or> responseText = Some [] \<longrightarrow>
      notify_message (fail h responseText) = JStr (gettext h default_message))
   \<and> (body \<noteq> [] \<and> JSON_parse h body = None \<longrightarrow>
      notify_message (fail h (Some body)) = JStr (take 300 body))
   \<and> (body \<noteq> [] \<and> JSON_parse h body = Some (JObj obj)
        \<and> map_of obj ''error'' = Some (JStr s) \<longrightarrow>
      notify_message (fail h (Some body)) = JStr s)
   \<and> (body \<noteq> [] \<and> JSON_parse h body = Some (JObj obj)
        \<and> map_of obj ''error'' = Some (JObj err)
        \<and> map_of err ''messages'' = Some (JArr msgs)
        \<and> list_all2 (\<lambda>m t. get_prop m ''text'' = Some (JStr t)) msgs texts \<longrightarrow>
      notify_message (fail h (Some body)) = JStr (separate '', '' texts))"
  by (auto simp: fail_def fail_message_def try_message_def substr_def jQuery_map_def
      map_array_texts flatten_JStr join_JStr Let_def)

theorem fail_message_cases_witness:
  \<open>notify_name (fail example_host (Some ''{"error":"Unknown user"}'')) = ''error''
   \<and> notify_title (fail example_host (Some ''{"error":"Unknown user"}''))
       = ''Unable to update settings''
   \<and> notify_message (fail example_host None) = JStr default_message
   \<and> notify_message (fail example_host (Some ''<html>Bad Gateway</html>''))
       = JStr ''<html>Bad Gateway</html>''
   \<and> notify_message (fail example_host (Some ''{"error":"Unknown user"}''))
       = JStr ''Unknown user''
   \<and> notify_message (fail example_host
       (Some ''{"error":{"messages":[{"text":"Unknown user","type":"error"},{"text":"Retry"}]}}''))
       = JStr ''Unknown user, Retry''\<close>
proof -
  have a: \<open>notify_message (fail example_host None) = JStr default_message\<close>
    using fail_message_cases [of example_host None] by (simp add: example_host_def)
  have b: \<open>notify_message (fail example_host (Some ''<html>Bad Gateway</html>''))
       = JStr ''<html>Bad Gateway</html>''\<close>
    using fail_message_cases [of example_host None "''<html>Bad Gateway</html>''"]
    by (simp add: example_host_def)
  have c: \<open>notify_name (fail example_host (Some ''{"error":"Unknown user"}'')) = ''error''
     \<and> notify_title (fail example_host (Some ''{"error":"Unknown user"}''))
         = ''Unable to update settings''
     \<and> notify_message (fail example_host (Some ''{"error":"Unknown user"}''))
         = JStr ''Unknown user''\<close>
    using fail_message_cases [of example_host \<open>Some ''{"error":"Unknown user"}''\<close>
        \<open>''{"error":"Unknown user"}''\<close>
        "[(''error'', JStr ''Unknown user'')]" "''Unknown user''"]
    by (simp add: example_host_def)
  have d: \<open>notify_message (fail example_host
       (Some ''{"error":{"messages":[{"text":"Unknown user","type":"error"},{"text":"Retry"}]}}''))
       = JStr ''Unknown user, Retry''\<close>
    using fail_message_cases [of example_host None
        \<open>''{"error":{"messages":[{"text":"Unknown user","type":"error"},{"text":"Retry"}]}}''\<close>
        "[(''error'', JObj [(''messages'',
               JArr [JObj [(''text'', JStr ''Unknown user''), (''type'', JStr ''error'')],
                     JObj [(''text'', JStr ''Retry'')]])])]"
        _ "[(''messages'',
               JArr [JObj [(''text'', JStr ''Unknown user''), (''type'', JStr ''error'')],
                     JObj [(''text'', JStr ''Retry'')]])]"
        "[JObj [(''text'', JStr ''Unknown user''), (''type'', JStr ''error'')],
          JObj [(''text'', JStr ''Retry'')]]"
        "[''Unknown user'', ''Retry'']"]
    by (simp add: example_host_def)
  show ?thesis using a b c d by simp
qed

section \<open>Unmounting\<close>

text \<open>
  C9, as stated, fails. A text change in the library search starts the timer; the
  component is unmounted; the timer is still pending, and 300 ms after the text change
  its closure runs and issues the libraries request, on the unmounted component.
\<close>

theorem timer_after_unmount_counterexample:
  "observe mounted (constructor defaultProps 0) [LibraryInputChange ''a'', Unmount]
     = Some False
   \<and> observe library_timer_pending (constructor defaultProps 0)
       [LibraryInputChange ''a'', Unmount] = Some True
   \<and> observe issued (constructor defaultProps 0)
       [LibraryInputChange ''a'', Unmount, Elapse 300, TimerFires LibraryField]
     = Some [LibrariesReq [], LibrariesReq ''a'']"
  by (simp add: observe_def library_timer_pending_def constructor_def defaultProps_def
      new_Set_def handler_defs pending_def)

text \<open>
  C9, amended. The class defines no teardown, so unmounting clears no timer. In a world
  reached from the constructor, if the component is unmounted while the timer of a
  search field is pending, the debounced function is as before; once the time of expiry
  has come (the other field's timer not expiring before it), the closure runs and issues
  the field's request with the selected library and the text of the input. The state is
  unchanged by all this.
\<close>

theorem unmount_keeps_timer:
  assumes "run (constructor p t0) pre = Some w" "mounted w"
    "debounced_of f w = Some d" "timeout d = Some e" "now w \<le> e"
    "before_expiry (debounced_of (other_field f) w) e"
  shows "\<exists>w1 w2. step w Unmount = Some w1 \<and> \<not> mounted w1
           \<and> debounced_of f w1 = Some d
           \<and> run w1 [Elapse (e - now w), TimerFires f] = Some w2
           \<and> issued w2 = issued w @
                [query f (selectedLibrary (state w)) (target_value (input_of f) w)]
           \<and> state w2 = state w \<and> \<not> mounted w2"
proof -
  have ok: "closures_ok w" using reachable_closures_ok [OF assms(1)] .
  show ?thesis using assms(2-) ok
    by (cases f)
       (auto simp: closures_ok_def handler_defs split: option.splits)
qed

theorem unmount_keeps_timer_witness:
  "\<exists>w d w1 w2. run (constructor defaultProps 0) [XBlockInputChange ''a'', Elapse 100] = Some w
     \<and> debounced_of XBlockField w = Some d \<and> timeout d = Some 300 \<and> now w = 100
     \<and> step w Unmount = Some w1 \<and> \<not> mounted w1
     \<and> debounced_of XBlockField w1 = Some d
     \<and> run w1 [Elapse (300 - now w), TimerFires XBlockField] = Some w2
     \<and> issued w2 = issued w @
          [query XBlockField (selectedLibrary (state w))
             (target_value (input_of XBlockField) w)]
     \<and> state w2 = state w \<and> \<not> mounted w2"
proof -
  have "\<exists>w d. run (constructor defaultProps 0) [XBlockInputChange ''a'', Elapse 100] = Some w
     \<and> mounted w \<and> debounced_of XBlockField w = Some d \<and> timeout d = Some 300
     \<and> now w = 100
     \<and> before_expiry (debounced_of (other_field XBlockField) w) 300"
    by (simp add: constructor_def defaultProps_def new_Set_def handler_defs)
  then obtain w d where
    w: "run (constructor defaultProps 0) [XBlockInputChange ''a'', Elapse 100] = Some w"
      "mounted w" "debounced_of XBlockField w = Some d" "timeout d = Some 300" "now w = 100"
      "before_expiry (debounced_of (other_field XBlockField) w) 300"
    by blast
  have le: "now w \<le> 300" using w(5) by simp
  from unmount_keeps_timer [OF w(1,2,3,4) le w(6)] w(1,3,4,5) show ?thesis by blast
qed

section \<open>Construction\<close>

text \<open>
  C10. The constructed component, before any event, has issued exactly one request: the
  libraries request with the empty text filter, which is in flight. Whatever the
  response, when it arrives the libraries list is that response, and no further request
  has been issued.
\<close>

theorem constructor_fetches_libraries:
  "issued (constructor p t0) = [LibrariesReq []]
   \<and> inflight (constructor p t0) = [LibrariesReq []]
   \<and> request_url (LibrariesReq []) = ''/api/libraries/v2?text_search=''
   \<and> libraries (state (constructor p t0)) = JArr []
   \<and> (\<forall>response. \<exists>w'. step (constructor p t0) (Resolve 0 response) = Some w'
          \<and> libraries (state w') = response \<and> issued w' = [LibrariesReq []]
          \<and> inflight w' = [])"
  by (simp add: constructor_def handler_defs request_url_def)

theorem constructor_fetches_libraries_witness:
  "issued (constructor defaultProps 0) = [LibrariesReq []]
   \<and> inflight (constructor defaultProps 0) = [LibrariesReq []]
   \<and> request_url (LibrariesReq []) = ''/api/libraries/v2?text_search=''
   \<and> libraries (state (constructor defaultProps 0)) = JArr []
   \<and> (\<forall>response. \<exists>w'. step (constructor defaultProps 0) (Resolve 0 response) = Some w'
          \<and> libraries (state w') = response \<and> issued w' = [LibrariesReq []]
          \<and> inflight w' = [])"
  using constructor_fetches_libraries [of defaultProps 0] .

end
